theory Spec2Isabelle
  imports Complex_Main
begin

section \<open>The Binance connect / balances / order workflow\<close>

text \<open>
  The component \<open>BinanceTradingInterface\<close> holds six pieces of React state and three
  asynchronous handlers (\<open>connectBinance\<close>, \<open>fetchBalances\<close>, \<open>placeOrder\<close>) that talk
  to a gateway with \<open>fetch\<close>. A handler is modelled as a function from the state before
  the click and the gateway's answers to the state after the handler (and the refresh it
  starts) has settled, together with the trace of what it sent and printed, in program
  order. Every \<open>throw\<close> that the source catches is a branch of the model.
\<close>

subsection \<open>JavaScript values\<close>

text \<open>
  A JavaScript number as the workflow sees it: it is carried, compared with zero by
  \<open>if (data.balances)\<close>, and never computed with.
\<close>

datatype js_number = NaN | PosInfinity | NegInfinity | Finite rat

text \<open>
  What \<open>response.json()\<close> resolves to, and what a property read can give. An object is
  the list of its own properties, read with \<open>map_of\<close>.
\<close>

datatype jsval =
    Undefined
  | Null
  | Boolean bool
  | Number js_number
  | Str string
  | Array "jsval list"
  | Object "(string \<times> jsval) list"

datatype js_error = NetworkError | SyntaxError | TypeError

text \<open>The condition of \<open>if (v)\<close>.\<close>

fun truthy :: "jsval \<Rightarrow> bool" where
  "truthy Undefined = False"
| "truthy Null = False"
| "truthy (Boolean b) = b"
| "truthy (Number n) = (n \<noteq> NaN \<and> n \<noteq> Finite 0)"
| "truthy (Str s) = (s \<noteq> [])"
| "truthy (Array xs) = True"
| "truthy (Object kvs) = True"

text \<open>
  The property read \<open>data.balances\<close>: a TypeError on \<open>null\<close> and \<open>undefined\<close>, the
  property of an object when it has one, \<open>undefined\<close> everywhere else.
\<close>

fun get_balances :: "jsval \<Rightarrow> js_error + jsval" where
  "get_balances Undefined = Inl TypeError"
| "get_balances Null = Inl TypeError"
| "get_balances (Object kvs) =
     (case map_of kvs ''balances'' of None \<Rightarrow> Inr Undefined | Some v \<Rightarrow> Inr v)"
| "get_balances (Boolean b) = Inr Undefined"
| "get_balances (Number n) = Inr Undefined"
| "get_balances (Str s) = Inr Undefined"
| "get_balances (Array xs) = Inr Undefined"

text \<open>\<open>interface Balance { asset, free, locked }\<close>, as the object the gateway sends.\<close>

definition Balance :: "string \<Rightarrow> string \<Rightarrow> string \<Rightarrow> jsval" where
  "Balance a f l = Object [(''asset'', Str a), (''free'', Str f), (''locked'', Str l)]"

text \<open>
  The shape that the type \<open>Balance[]\<close> of the \<open>balances\<close> cell announces: an array of
  objects with string fields \<open>asset\<close>, \<open>free\<close> and \<open>locked\<close>. The handlers never test
  it.
\<close>

fun is_string_field :: "jsval option \<Rightarrow> bool" where
  "is_string_field (Some (Str x)) = True"
| "is_string_field v = False"

fun is_Balance :: "jsval \<Rightarrow> bool" where
  "is_Balance (Object kvs) =
     (is_string_field (map_of kvs ''asset'') \<and> is_string_field (map_of kvs ''free'')
      \<and> is_string_field (map_of kvs ''locked''))"
| "is_Balance v = False"

fun is_Balance_array :: "jsval \<Rightarrow> bool" where
  "is_Balance_array (Array xs) = list_all is_Balance xs"
| "is_Balance_array v = False"

subsection \<open>The gateway\<close>

text \<open>
  A response as the handlers read it: \<open>response.ok\<close> is the 2xx test on the status, and
  \<open>response.json()\<close> resolves to a value or rejects (\<open>None\<close>) when the body is not JSON.
\<close>

datatype http_response = HttpResponse (status: nat) (json: "jsval option")

definition ok :: "http_response \<Rightarrow> bool" where
  "ok r = (200 \<le> status r \<and> status r \<le> 299)"

text \<open>\<open>await fetch(...)\<close> either rejects (a network error) or resolves to a response.\<close>

datatype fetch_result = Rejected | Resolved http_response

text \<open>The gateway's answer on each of the three endpoints while one handler runs.\<close>

record gateway =
  connect_result :: fetch_result
  balances_result :: fetch_result
  order_result :: fetch_result

subsection \<open>State\<close>

datatype side = BUY | SELL

datatype order_type = MARKET | LIMIT

record OrderData =
  symbol :: string
  side :: side
  otype :: order_type
  quantity :: js_number

text \<open>
  The six \<open>useState\<close> cells. \<open>balances\<close> holds whatever value \<open>setBalances\<close> was given:
  the source stores \<open>data.balances\<close> without looking at its shape.
\<close>

record state =
  isConnected :: bool
  balances :: jsval
  apiKey :: string
  apiSecret :: string
  loading :: bool
  orderData :: OrderData

definition initial :: state where
  "initial =
     \<lparr>isConnected = False, balances = Array [], apiKey = [], apiSecret = [],
      loading = False,
      orderData = \<lparr>symbol = ''BTCUSDT'', side = BUY, otype = MARKET,
                    quantity = Finite (1 / 1000)\<rparr>\<rparr>"

subsection \<open>Effects\<close>

text \<open>The requests the component sends; the last argument is \<open>user_id\<close>.\<close>

datatype request =
    POST_connect string string string
  | GET_balances string
  | POST_order OrderData string

datatype effect =
    Fetch request
  | ConsoleError string js_error
  | ConsoleLog string jsval

fun is_balances_fetch :: "effect \<Rightarrow> bool" where
  "is_balances_fetch (Fetch (GET_balances u)) = True"
| "is_balances_fetch e = False"

fun is_connect_fetch :: "effect \<Rightarrow> bool" where
  "is_connect_fetch (Fetch (POST_connect k sec u)) = True"
| "is_connect_fetch e = False"

fun is_order_fetch :: "effect \<Rightarrow> bool" where
  "is_order_fetch (Fetch (POST_order d u)) = True"
| "is_order_fetch e = False"

fun is_console_error :: "effect \<Rightarrow> bool" where
  "is_console_error (ConsoleError m e) = True"
| "is_console_error e = False"

definition balances_fetches :: "effect list \<Rightarrow> nat" where
  "balances_fetches t = length (filter is_balances_fetch t)"

definition connect_fetches :: "effect list \<Rightarrow> nat" where
  "connect_fetches t = length (filter is_connect_fetch t)"

definition order_fetches :: "effect list \<Rightarrow> nat" where
  "order_fetches t = length (filter is_order_fetch t)"

subsection \<open>The handlers\<close>

text \<open>
  \<open>fetchBalances\<close>: the whole body is inside \<open>try\<close>. \<open>response.ok\<close> is not read. The
  three ways into \<open>catch\<close> are a rejected \<open>fetch\<close>, a rejected \<open>response.json()\<close> and the
  TypeError of \<open>data.balances\<close> on \<open>null\<close>.
\<close>

definition fetchBalances :: "state \<Rightarrow> gateway \<Rightarrow> state \<times> effect list" where
  "fetchBalances s g =
     (let req = Fetch (GET_balances ''default'') in
      case balances_result g of
        Rejected \<Rightarrow> (s, [req, ConsoleError ''Failed to fetch balances:'' NetworkError])
      | Resolved response \<Rightarrow>
          (case json response of
             None \<Rightarrow> (s, [req, ConsoleError ''Failed to fetch balances:'' SyntaxError])
           | Some data \<Rightarrow>
               (case get_balances data of
                  Inl e \<Rightarrow> (s, [req, ConsoleError ''Failed to fetch balances:'' e])
                | Inr v \<Rightarrow>
                    if truthy v then (s\<lparr>balances := v\<rparr>, [req]) else (s, [req]))))"

text \<open>
  \<open>connectBinance\<close>. The call \<open>fetchBalances()\<close> is not awaited, so \<open>setLoading(false)\<close>
  runs before the refresh settles; the two write different cells, and the state below is
  the one reached when both are done.
\<close>

definition connectBinance :: "state \<Rightarrow> gateway \<Rightarrow> state \<times> effect list" where
  "connectBinance s g =
     (let s1 = s\<lparr>loading := True\<rparr>;
          req = Fetch (POST_connect (apiKey s) (apiSecret s) ''default'') in
      case connect_result g of
        Rejected \<Rightarrow>
          (s1\<lparr>loading := False\<rparr>, [req, ConsoleError ''Connection failed:'' NetworkError])
      | Resolved response \<Rightarrow>
          if ok response then
            (let s2 = s1\<lparr>isConnected := True\<rparr>;
                 r = fetchBalances s2 g in
             ((fst r)\<lparr>loading := False\<rparr>, req # snd r))
          else (s1\<lparr>loading := False\<rparr>, [req]))"

text \<open>
  \<open>placeOrder\<close>. On \<open>response.ok\<close> the body is parsed first; a rejected
  \<open>response.json()\<close> goes to \<open>catch\<close> and skips the refresh.
\<close>

definition placeOrder :: "state \<Rightarrow> gateway \<Rightarrow> state \<times> effect list" where
  "placeOrder s g =
     (let s1 = s\<lparr>loading := True\<rparr>;
          req = Fetch (POST_order (orderData s) ''default'') in
      case order_result g of
        Rejected \<Rightarrow>
          (s1\<lparr>loading := False\<rparr>, [req, ConsoleError ''Order failed:'' NetworkError])
      | Resolved response \<Rightarrow>
          if ok response then
            (case json response of
               None \<Rightarrow>
                 (s1\<lparr>loading := False\<rparr>, [req, ConsoleError ''Order failed:'' SyntaxError])
             | Some result \<Rightarrow>
                 (let r = fetchBalances s1 g in
                  ((fst r)\<lparr>loading := False\<rparr>,
                   req # ConsoleLog ''Order placed:'' result # snd r)))
          else (s1\<lparr>loading := False\<rparr>, [req]))"

subsection \<open>The rendered controls\<close>

text \<open>
  What the user can do. \<open>ChangeQuantity\<close> carries the result of \<open>Number.parseFloat\<close> on
  the typed text.
\<close>

datatype event =
    ChangeApiKey string
  | ChangeApiSecret string
  | ClickConnect
  | ClickRefresh
  | SelectSymbol string
  | SelectSide side
  | ChangeQuantity js_number
  | ClickOrder

text \<open>
  The JSX: \<open>!isConnected ? (credential inputs, connect button) : (balances, refresh
  button, order form)\<close>, with \<open>disabled={loading || !apiKey || !apiSecret}\<close> on the
  connect button and \<open>disabled={loading}\<close> on the order button. \<open>!x\<close> of a string is
  true exactly for the empty string. Which of the two tabs is open is state of the
  \<open>Tabs\<close> widget and is left out: either tab can be opened at any time.
\<close>

fun enabled :: "state \<Rightarrow> event \<Rightarrow> bool" where
  "enabled s (ChangeApiKey v) = (\<not> isConnected s)"
| "enabled s (ChangeApiSecret v) = (\<not> isConnected s)"
| "enabled s ClickConnect =
     (\<not> isConnected s \<and> \<not> (loading s \<or> apiKey s = [] \<or> apiSecret s = []))"
| "enabled s ClickRefresh = isConnected s"
| "enabled s (SelectSymbol v) = isConnected s"
| "enabled s (SelectSide v) = isConnected s"
| "enabled s (ChangeQuantity q) = isConnected s"
| "enabled s ClickOrder = (isConnected s \<and> \<not> loading s)"

fun handler :: "state \<Rightarrow> event \<Rightarrow> gateway \<Rightarrow> state \<times> effect list" where
  "handler s (ChangeApiKey v) g = (s\<lparr>apiKey := v\<rparr>, [])"
| "handler s (ChangeApiSecret v) g = (s\<lparr>apiSecret := v\<rparr>, [])"
| "handler s ClickConnect g = connectBinance s g"
| "handler s ClickRefresh g = fetchBalances s g"
| "handler s (SelectSymbol v) g = (s\<lparr>orderData := (orderData s)\<lparr>symbol := v\<rparr>\<rparr>, [])"
| "handler s (SelectSide v) g = (s\<lparr>orderData := (orderData s)\<lparr>side := v\<rparr>\<rparr>, [])"
| "handler s (ChangeQuantity q) g = (s\<lparr>orderData := (orderData s)\<lparr>quantity := q\<rparr>\<rparr>, [])"
| "handler s ClickOrder g = placeOrder s g"

text \<open>A control that is not rendered, or is disabled, does nothing.\<close>

definition dispatch :: "state \<Rightarrow> event \<Rightarrow> gateway \<Rightarrow> state \<times> effect list" where
  "dispatch s ev g = (if enabled s ev then handler s ev g else (s, []))"

text \<open>A session: events one after another, each with the gateway's answers to it.\<close>

fun run :: "state \<Rightarrow> (event \<times> gateway) list \<Rightarrow> state \<times> effect list" where
  "run s [] = (s, [])"
| "run s (eg # rest) =
     (let r1 = dispatch s (fst eg) (snd eg);
          r2 = run (fst r1) rest in
      (fst r2, snd r1 @ snd r2))"

subsection \<open>Sample inputs\<close>

definition gw_ok :: gateway where
  "gw_ok =
     \<lparr>connect_result = Resolved (HttpResponse 200 (Some (Object []))),
      balances_result = Resolved (HttpResponse 200
         (Some (Object [(''balances'', Array [Balance ''BTC'' ''0.5'' ''0.0''])]))),
      order_result = Resolved (HttpResponse 200 (Some (Object [(''orderId'', Str ''1'')])))\<rparr>"

definition keyed :: state where
  "keyed = initial\<lparr>apiKey := ''k'', apiSecret := ''s''\<rparr>"

definition linked :: state where
  "linked = keyed\<lparr>isConnected := True, balances := Array [Balance ''ETH'' ''2.0'' ''0.0'']\<rparr>"

definition gw_down :: gateway where
  "gw_down = \<lparr>connect_result = Rejected, balances_result = Rejected, order_result = Rejected\<rparr>"

definition gw_denied :: gateway where
  "gw_denied =
     \<lparr>connect_result = Resolved (HttpResponse 401 (Some (Object [(''error'', Str ''bad key'')]))),
      balances_result = Resolved (HttpResponse 401 (Some (Object [(''error'', Str ''bad key'')]))),
      order_result = Resolved (HttpResponse 401 (Some (Object [(''error'', Str ''bad key'')])))\<rparr>"

definition gw_empty_body :: gateway where
  "gw_empty_body =
     \<lparr>connect_result = Resolved (HttpResponse 204 None),
      balances_result = Resolved (HttpResponse 204 None),
      order_result = Resolved (HttpResponse 204 None)\<rparr>"

definition gw_null :: gateway where
  "gw_null =
     \<lparr>connect_result = Resolved (HttpResponse 200 (Some Null)),
      balances_result = Resolved (HttpResponse 200 (Some Null)),
      order_result = Resolved (HttpResponse 200 (Some Null))\<rparr>"

definition gw_no_field :: gateway where
  "gw_no_field =
     \<lparr>connect_result = Resolved (HttpResponse 200 (Some (Object []))),
      balances_result = Resolved (HttpResponse 200 (Some (Object []))),
      order_result = Resolved (HttpResponse 200 (Some (Object [])))\<rparr>"

definition gw_bad_shape :: gateway where
  "gw_bad_shape =
     \<lparr>connect_result = Resolved (HttpResponse 200 (Some (Object []))),
      balances_result = Resolved (HttpResponse 200 (Some (Object [(''balances'', Str ''abc'')]))),
      order_result = Resolved (HttpResponse 200 (Some (Object [])))\<rparr>"

definition gw_zero :: gateway where
  "gw_zero =
     \<lparr>connect_result = Resolved (HttpResponse 200 (Some (Object []))),
      balances_result = Resolved (HttpResponse 200
         (Some (Object [(''balances'', Number (Finite 0))]))),
      order_result = Resolved (HttpResponse 200 (Some (Object [])))\<rparr>"

lemmas sample_defs = gw_bad_shape_def gw_zero_def gw_no_field_def gw_ok_def gw_down_def gw_denied_def gw_empty_body_def gw_null_def
  keyed_def linked_def initial_def

section \<open>Properties\<close>

subsection \<open>Facts about the handlers\<close>

lemma fetchBalances_trace_head:
  "\<exists>rest. snd (fetchBalances s g) = Fetch (GET_balances ''default'') # rest"
  by (simp add: fetchBalances_def Let_def split: fetch_result.split option.split sum.split)

lemma fetchBalances_one_fetch: "balances_fetches (snd (fetchBalances s g)) = 1"
  by (simp add: fetchBalances_def balances_fetches_def Let_def
      split: fetch_result.split option.split sum.split)

lemma fetchBalances_isConnected: "isConnected (fst (fetchBalances s g)) = isConnected s"
  by (simp add: fetchBalances_def Let_def split: fetch_result.split option.split sum.split)

lemma fetchBalances_Rejected:
  "balances_result g = Rejected \<Longrightarrow>
   fetchBalances s g =
     (s, [Fetch (GET_balances ''default''), ConsoleError ''Failed to fetch balances:'' NetworkError])"
  by (simp add: fetchBalances_def)

lemma fetchBalances_no_json:
  "balances_result g = Resolved response \<Longrightarrow> json response = None \<Longrightarrow>
   fetchBalances s g =
     (s, [Fetch (GET_balances ''default''), ConsoleError ''Failed to fetch balances:'' SyntaxError])"
  by (simp add: fetchBalances_def)

lemma fetchBalances_truthy:
  "balances_result g = Resolved response \<Longrightarrow> json response = Some data \<Longrightarrow>
   get_balances data = Inr v \<Longrightarrow> truthy v \<Longrightarrow>
   fetchBalances s g = (s\<lparr>balances := v\<rparr>, [Fetch (GET_balances ''default'')])"
  by (simp add: fetchBalances_def)

lemma get_balances_not_object:
  "\<forall>kvs. data \<noteq> Object kvs \<Longrightarrow>
   get_balances data = Inl TypeError \<or> get_balances data = Inr Undefined"
  by (cases data) simp_all

lemma fetchBalances_not_object:
  assumes "balances_result g = Resolved response" and "json response = Some data"
    and "\<forall>kvs. data \<noteq> Object kvs"
  shows "fst (fetchBalances s g) = s"
  using get_balances_not_object [OF assms(3)] assms(1,2)
  by (auto simp: fetchBalances_def)

lemma fetchBalances_field_missing:
  "balances_result g = Resolved response \<Longrightarrow> json response = Some (Object kvs) \<Longrightarrow>
   map_of kvs ''balances'' = None \<Longrightarrow> fst (fetchBalances s g) = s"
  by (simp add: fetchBalances_def)

lemma fetchBalances_field_falsy:
  "balances_result g = Resolved response \<Longrightarrow> json response = Some (Object kvs) \<Longrightarrow>
   map_of kvs ''balances'' = Some v \<Longrightarrow> \<not> truthy v \<Longrightarrow> fst (fetchBalances s g) = s"
  by (simp add: fetchBalances_def)

lemma fetchBalances_unchanged_or_replaced:
  "fst (fetchBalances s g) = s
   \<or> (\<exists>response kvs v. balances_result g = Resolved response
        \<and> json response = Some (Object kvs) \<and> map_of kvs ''balances'' = Some v
        \<and> truthy v \<and> fst (fetchBalances s g) = s\<lparr>balances := v\<rparr>)"
proof (cases "balances_result g")
  case Rejected
  then show ?thesis by (simp add: fetchBalances_Rejected)
next
  case (Resolved response)
  show ?thesis
  proof (cases "json response")
    case None
    with Resolved show ?thesis by (simp add: fetchBalances_no_json)
  next
    case (Some data)
    show ?thesis
    proof (cases "\<exists>kvs. data = Object kvs")
      case False
      then have "\<forall>kvs. data \<noteq> Object kvs" by blast
      with Resolved Some show ?thesis by (simp add: fetchBalances_not_object)
    next
      case True
      then obtain kvs where obj: "data = Object kvs" by blast
      show ?thesis
      proof (cases "map_of kvs ''balances''")
        case None
        with Resolved Some obj show ?thesis by (simp add: fetchBalances_field_missing)
      next
        case field: (Some v)
        show ?thesis
        proof (cases "truthy v")
          case False
          with Resolved Some obj field show ?thesis
            by (simp add: fetchBalances_field_falsy)
        next
          case True
          with Resolved Some obj field
          have "fst (fetchBalances s g) = s\<lparr>balances := v\<rparr>"
            by (simp add: fetchBalances_def)
          with Resolved Some obj field True show ?thesis by blast
        qed
      qed
    qed
  qed
qed

lemma fetchBalances_frame:
  "fst (fetchBalances s g) = s\<lparr>balances := balances (fst (fetchBalances s g))\<rparr>"
  by (simp add: fetchBalances_def Let_def split: fetch_result.split option.split sum.split)

lemma fetchBalances_loading:
  "fetchBalances (s\<lparr>loading := b\<rparr>) g =
     ((fst (fetchBalances s g))\<lparr>loading := b\<rparr>, snd (fetchBalances s g))"
  by (simp add: fetchBalances_def Let_def split: fetch_result.split option.split sum.split)

lemma fetchBalances_connected:
  "fetchBalances (s\<lparr>isConnected := b\<rparr>) g =
     ((fst (fetchBalances s g))\<lparr>isConnected := b\<rparr>, snd (fetchBalances s g))"
  by (simp add: fetchBalances_def Let_def split: fetch_result.split option.split sum.split)

lemma fetchBalances_no_order: "order_fetches (snd (fetchBalances s g)) = 0"
  by (simp add: fetchBalances_def order_fetches_def Let_def
      split: fetch_result.split option.split sum.split)

lemma connectBinance_Rejected:
  "connect_result g = Rejected \<Longrightarrow>
   connectBinance s g =
     (s\<lparr>loading := False\<rparr>,
      [Fetch (POST_connect (apiKey s) (apiSecret s) ''default''),
       ConsoleError ''Connection failed:'' NetworkError])"
  by (simp add: connectBinance_def)

lemma connectBinance_not_ok:
  "connect_result g = Resolved response \<Longrightarrow> \<not> ok response \<Longrightarrow>
   connectBinance s g =
     (s\<lparr>loading := False\<rparr>, [Fetch (POST_connect (apiKey s) (apiSecret s) ''default'')])"
  by (simp add: connectBinance_def)

lemma connectBinance_ok:
  "connect_result g = Resolved response \<Longrightarrow> ok response \<Longrightarrow>
   connectBinance s g =
     (s\<lparr>isConnected := True, balances := balances (fst (fetchBalances s g)), loading := False\<rparr>,
      Fetch (POST_connect (apiKey s) (apiSecret s) ''default'') # snd (fetchBalances s g))"
  apply (simp add: connectBinance_def Let_def fetchBalances_loading fetchBalances_connected)
  apply (subst fetchBalances_frame)
  apply simp
  done

lemma connectBinance_isConnected:
  "isConnected s \<Longrightarrow> isConnected (fst (connectBinance s g))"
  by (cases "connect_result g")
     (simp_all add: connectBinance_def Let_def fetchBalances_isConnected)

lemma connectBinance_no_order: "order_fetches (snd (connectBinance s g)) = 0"
  using fetchBalances_no_order [of "s\<lparr>loading := True, isConnected := True\<rparr>" g]
  by (cases "connect_result g") (simp_all add: connectBinance_def Let_def order_fetches_def)

lemma placeOrder_isConnected: "isConnected (fst (placeOrder s g)) = isConnected s"
  by (cases "order_result g")
     (simp_all add: placeOrder_def Let_def fetchBalances_isConnected split: option.split)

lemma placeOrder_parsed:
  "order_result g = Resolved response \<Longrightarrow> ok response \<Longrightarrow> json response = Some result \<Longrightarrow>
   placeOrder s g =
     ((fst (fetchBalances s g))\<lparr>loading := False\<rparr>,
      Fetch (POST_order (orderData s) ''default'') # ConsoleLog ''Order placed:'' result
        # snd (fetchBalances s g))"
  by (simp add: placeOrder_def Let_def fetchBalances_loading)

lemma handler_isConnected:
  "isConnected s \<Longrightarrow> isConnected (fst (handler s ev g))"
  by (cases ev)
     (simp_all add: connectBinance_isConnected fetchBalances_isConnected placeOrder_isConnected)

lemma dispatch_isConnected:
  "isConnected s \<Longrightarrow> isConnected (fst (dispatch s ev g))"
  by (simp add: dispatch_def handler_isConnected)

lemma run_isConnected:
  "isConnected s \<Longrightarrow> isConnected (fst (run s evs))"
proof (induction evs arbitrary: s)
  case Nil
  then show ?case by simp
next
  case (Cons eg rest)
  have "isConnected (fst (dispatch s (fst eg) (snd eg)))"
    using Cons.prems by (rule dispatch_isConnected)
  then have "isConnected (fst (run (fst (dispatch s (fst eg) (snd eg))) rest))"
    by (rule Cons.IH)
  then show ?case by (simp add: Let_def)
qed

lemma dispatch_disconnected_no_order:
  "\<not> isConnected s \<Longrightarrow> order_fetches (snd (dispatch s ev g)) = 0"
  using connectBinance_no_order [of s g]
  by (cases ev) (simp_all add: dispatch_def order_fetches_def)

lemma order_fetches_append:
  "order_fetches (t1 @ t2) = order_fetches t1 + order_fetches t2"
  by (simp add: order_fetches_def)

lemma run_disconnected_no_order:
  "\<not> isConnected (fst (run s evs)) \<Longrightarrow> order_fetches (snd (run s evs)) = 0"
proof (induction evs arbitrary: s)
  case Nil
  then show ?case by (simp add: order_fetches_def)
next
  case (Cons eg rest)
  let ?s1 = "fst (dispatch s (fst eg) (snd eg))"
  from Cons.prems have final: "\<not> isConnected (fst (run ?s1 rest))"
    by (simp add: Let_def)
  then have tail: "order_fetches (snd (run ?s1 rest)) = 0"
    by (rule Cons.IH)
  from final have "\<not> isConnected ?s1"
    using run_isConnected [of ?s1 rest] by blast
  then have "\<not> isConnected s"
    using dispatch_isConnected [of s "fst eg" "snd eg"] by blast
  then have "order_fetches (snd (dispatch s (fst eg) (snd eg))) = 0"
    by (rule dispatch_disconnected_no_order)
  with tail show ?case by (simp add: Let_def order_fetches_append)
qed

subsection \<open>Connecting\<close>

text \<open>
  C1. A connect attempt whose response is an HTTP success leaves the session connected,
  and its trace is the connect request, then at once the balances request, and holds
  exactly one balances request.
\<close>

theorem connect_success_connected_one_fetch:
  assumes "connect_result g = Resolved response" and "ok response"
  shows "isConnected (fst (connectBinance s g))
    \<and> balances_fetches (snd (connectBinance s g)) = 1
    \<and> (\<exists>rest. snd (connectBinance s g) =
          Fetch (POST_connect (apiKey s) (apiSecret s) ''default'')
            # Fetch (GET_balances ''default'') # rest)"
proof -
  let ?s2 = "s\<lparr>loading := True, isConnected := True\<rparr>"
  have run: "connectBinance s g =
      ((fst (fetchBalances ?s2 g))\<lparr>loading := False\<rparr>,
       Fetch (POST_connect (apiKey s) (apiSecret s) ''default'') # snd (fetchBalances ?s2 g))"
    using assms by (simp add: connectBinance_def Let_def)
  have conn: "isConnected (fst (connectBinance s g))"
    by (simp add: run fetchBalances_isConnected)
  have one: "balances_fetches (snd (connectBinance s g)) = 1"
    using fetchBalances_one_fetch [of ?s2 g]
    by (simp add: run balances_fetches_def)
  from fetchBalances_trace_head [of ?s2 g]
  have next_fetch: "\<exists>rest. snd (connectBinance s g) =
      Fetch (POST_connect (apiKey s) (apiSecret s) ''default'')
        # Fetch (GET_balances ''default'') # rest"
    by (auto simp: run)
  from conn one next_fetch show ?thesis by blast
qed

theorem connect_success_connected_one_fetch_witness:
  "connect_result gw_ok = Resolved (HttpResponse 200 (Some (Object [])))
   \<and> ok (HttpResponse 200 (Some (Object [])))
   \<and> isConnected (fst (connectBinance keyed gw_ok))
   \<and> balances_fetches (snd (connectBinance keyed gw_ok)) = 1
   \<and> snd (connectBinance keyed gw_ok) =
        [Fetch (POST_connect ''k'' ''s'' ''default''), Fetch (GET_balances ''default'')]
   \<and> balances (fst (connectBinance keyed gw_ok)) = Array [Balance ''BTC'' ''0.5'' ''0.0'']"
  using connect_success_connected_one_fetch
    [of gw_ok "HttpResponse 200 (Some (Object []))" keyed]
  by (simp add: gw_ok_def keyed_def initial_def ok_def connectBinance_def fetchBalances_def
      balances_fetches_def Let_def)

text \<open>
  C2. When either credential field is the empty string the connect button is disabled:
  a click on it changes nothing and sends no connect request.
\<close>

theorem empty_credentials_block_connect:
  assumes "apiKey s = [] \<or> apiSecret s = []"
  shows "\<not> enabled s ClickConnect
    \<and> dispatch s ClickConnect g = (s, [])
    \<and> connect_fetches (snd (dispatch s ClickConnect g)) = 0"
  using assms by (auto simp: dispatch_def connect_fetches_def)

theorem empty_credentials_block_connect_witness:
  "apiSecret (initial\<lparr>apiKey := ''k''\<rparr>) = []
   \<and> enabled (initial\<lparr>apiKey := ''k''\<rparr>) ClickConnect = False
   \<and> dispatch (initial\<lparr>apiKey := ''k''\<rparr>) ClickConnect gw_ok = (initial\<lparr>apiKey := ''k''\<rparr>, [])
   \<and> connect_fetches (snd (dispatch (initial\<lparr>apiKey := ''k''\<rparr>) ClickConnect gw_ok)) = 0
   \<and> enabled keyed ClickConnect"
  using empty_credentials_block_connect [of "initial\<lparr>apiKey := ''k''\<rparr>" gw_ok]
  by (simp add: initial_def keyed_def dispatch_def connect_fetches_def)

text \<open>
  A connect attempt answered with HTTP 401: the trace is the connect request alone, with
  no \<open>console.error\<close>. Only the \<open>catch\<close> block logs, and a non-2xx response does
  not reach it.
\<close>

theorem connect_http_failure_logs_nothing_counterexample:
  "connect_result gw_denied =
      Resolved (HttpResponse 401 (Some (Object [(''error'', Str ''bad key'')])))
   \<and> ok (HttpResponse 401 (Some (Object [(''error'', Str ''bad key'')]))) = False
   \<and> snd (connectBinance keyed gw_denied) = [Fetch (POST_connect ''k'' ''s'' ''default'')]
   \<and> filter is_console_error (snd (connectBinance keyed gw_denied)) = []"
  by (simp add: sample_defs ok_def connectBinance_def)

text \<open>
  C3. A connect attempt that ends in a network error or in a non-2xx response
  leaves every cell but \<open>loading\<close> as it was, so a disconnected session stays
  disconnected; it sends exactly the one connect request, with no retry and no balances
  request. The network error is logged; the non-2xx response is not.
\<close>

theorem connect_failure_self_loop:
  "(connect_result g = Rejected \<longrightarrow>
      connectBinance s g =
        (s\<lparr>loading := False\<rparr>,
         [Fetch (POST_connect (apiKey s) (apiSecret s) ''default''),
          ConsoleError ''Connection failed:'' NetworkError]))
   \<and> (connect_result g = Resolved response \<and> \<not> ok response \<longrightarrow>
      connectBinance s g =
        (s\<lparr>loading := False\<rparr>, [Fetch (POST_connect (apiKey s) (apiSecret s) ''default'')]))"
  by (simp add: connectBinance_Rejected connectBinance_not_ok)

theorem connect_failure_self_loop_witness:
  "connect_result gw_down = Rejected
   \<and> connectBinance keyed gw_down =
        (keyed, [Fetch (POST_connect ''k'' ''s'' ''default''),
                 ConsoleError ''Connection failed:'' NetworkError])
   \<and> connect_result gw_denied =
        Resolved (HttpResponse 401 (Some (Object [(''error'', Str ''bad key'')])))
   \<and> ok (HttpResponse 401 (Some (Object [(''error'', Str ''bad key'')]))) = False
   \<and> connectBinance keyed gw_denied = (keyed, [Fetch (POST_connect ''k'' ''s'' ''default'')])
   \<and> isConnected keyed = False"
  using connect_failure_self_loop [of gw_down keyed]
    connect_failure_self_loop
      [of gw_denied keyed "HttpResponse 401 (Some (Object [(''error'', Str ''bad key'')]))"]
  by (simp add: sample_defs ok_def)

text \<open>
  C10. A connect attempt never changes \<open>apiKey\<close>, \<open>apiSecret\<close> or \<open>orderData\<close>. On
  failure the state afterwards is the state before with \<open>loading\<close> cleared, so the
  balances are untouched; on success it differs from that only in \<open>isConnected\<close> and
  in the balances the triggered refresh stored.
\<close>

theorem connect_frame:
  "apiKey (fst (connectBinance s g)) = apiKey s
   \<and> apiSecret (fst (connectBinance s g)) = apiSecret s
   \<and> orderData (fst (connectBinance s g)) = orderData s
   \<and> (connect_result g = Rejected \<longrightarrow> fst (connectBinance s g) = s\<lparr>loading := False\<rparr>)
   \<and> (connect_result g = Resolved response \<and> \<not> ok response \<longrightarrow>
        fst (connectBinance s g) = s\<lparr>loading := False\<rparr>)
   \<and> (connect_result g = Resolved response \<and> ok response \<longrightarrow>
        fst (connectBinance s g) =
          s\<lparr>isConnected := True, balances := balances (fst (fetchBalances s g)),
            loading := False\<rparr>)"
proof -
  have fields: "apiKey (fst (connectBinance s g)) = apiKey s
      \<and> apiSecret (fst (connectBinance s g)) = apiSecret s
      \<and> orderData (fst (connectBinance s g)) = orderData s"
  proof (cases "connect_result g")
    case Rejected
    then show ?thesis by (simp add: connectBinance_Rejected)
  next
    case (Resolved r)
    then show ?thesis
      by (cases "ok r") (simp_all add: connectBinance_ok connectBinance_not_ok)
  qed
  then show ?thesis
    by (simp add: connectBinance_Rejected connectBinance_not_ok connectBinance_ok)
qed

theorem connect_frame_witness:
  "connect_result gw_down = Rejected
   \<and> fst (connectBinance keyed gw_down) = keyed
   \<and> connect_result gw_denied =
        Resolved (HttpResponse 401 (Some (Object [(''error'', Str ''bad key'')])))
   \<and> ok (HttpResponse 401 (Some (Object [(''error'', Str ''bad key'')]))) = False
   \<and> fst (connectBinance keyed gw_denied) = keyed
   \<and> connect_result gw_ok = Resolved (HttpResponse 200 (Some (Object [])))
   \<and> ok (HttpResponse 200 (Some (Object [])))
   \<and> fst (connectBinance keyed gw_ok) =
        keyed\<lparr>isConnected := True, balances := Array [Balance ''BTC'' ''0.5'' ''0.0'']\<rparr>
   \<and> apiKey (fst (connectBinance keyed gw_ok)) = ''k''
   \<and> apiSecret (fst (connectBinance keyed gw_ok)) = ''s''
   \<and> orderData (fst (connectBinance keyed gw_ok)) = orderData initial"
  using connect_frame [of keyed gw_down]
    connect_frame
      [of keyed gw_denied "HttpResponse 401 (Some (Object [(''error'', Str ''bad key'')]))"]
    connect_frame [of keyed gw_ok "HttpResponse 200 (Some (Object []))"]
  by (simp add: sample_defs ok_def fetchBalances_def)

subsection \<open>Refreshing balances\<close>

text \<open>
  A session that shows one ETH row refreshes against the body \<open>{"balances": "abc"}\<close>.
  The string is truthy, so \<open>setBalances\<close> stores it: the row is gone, although the body
  cannot be used as a list of balances.
\<close>

theorem refresh_malformed_balances_overwrites_counterexample:
  "balances_result gw_bad_shape =
      Resolved (HttpResponse 200 (Some (Object [(''balances'', Str ''abc'')])))
   \<and> is_Balance_array (Str ''abc'') = False
   \<and> is_Balance_array (balances linked)
   \<and> balances (fst (fetchBalances linked gw_bad_shape)) = Str ''abc''
   \<and> balances (fst (fetchBalances linked gw_bad_shape)) \<noteq> balances linked"
  by (simp add: sample_defs gw_bad_shape_def fetchBalances_def Balance_def)

text \<open>
  C4. A refresh that brings no truthy \<open>balances\<close> value leaves the whole state, and so
  the balance collection, as it was: when \<open>fetch\<close> rejects, when the body is not JSON,
  when the body is JSON but not an object (\<open>null\<close> among them), when the object has no
  \<open>balances\<close> field, and when the field is falsy. There is no partial overwrite on any
  answer: the state afterwards is either the state before, or the state before with the
  collection replaced by the truthy \<open>balances\<close> value of the body.
\<close>

theorem refresh_without_balances_keeps_state:
  "(balances_result g = Rejected \<longrightarrow> fst (fetchBalances s g) = s)
   \<and> (balances_result g = Resolved response \<and> json response = None \<longrightarrow>
        fst (fetchBalances s g) = s)
   \<and> (balances_result g = Resolved response \<and> json response = Some data
        \<and> (\<forall>kvs. data \<noteq> Object kvs) \<longrightarrow> fst (fetchBalances s g) = s)
   \<and> (balances_result g = Resolved response \<and> json response = Some (Object kvs)
        \<and> map_of kvs ''balances'' = None \<longrightarrow> fst (fetchBalances s g) = s)
   \<and> (balances_result g = Resolved response \<and> json response = Some (Object kvs)
        \<and> map_of kvs ''balances'' = Some v \<and> \<not> truthy v \<longrightarrow>
        fst (fetchBalances s g) = s)
   \<and> (fst (fetchBalances s g) = s
       \<or> (\<exists>response kvs v. balances_result g = Resolved response
            \<and> json response = Some (Object kvs) \<and> map_of kvs ''balances'' = Some v
            \<and> truthy v \<and> fst (fetchBalances s g) = s\<lparr>balances := v\<rparr>))"
proof -
  have a: "balances_result g = Rejected \<longrightarrow> fst (fetchBalances s g) = s"
    by (simp add: fetchBalances_Rejected)
  have b: "balances_result g = Resolved response \<and> json response = None \<longrightarrow>
      fst (fetchBalances s g) = s"
    by (simp add: fetchBalances_no_json)
  have c: "balances_result g = Resolved response \<and> json response = Some data
      \<and> (\<forall>kvs. data \<noteq> Object kvs) \<longrightarrow> fst (fetchBalances s g) = s"
    using fetchBalances_not_object [of g response data s] by blast
  have d: "balances_result g = Resolved response \<and> json response = Some (Object kvs)
      \<and> map_of kvs ''balances'' = None \<longrightarrow> fst (fetchBalances s g) = s"
    using fetchBalances_field_missing [of g response kvs s] by blast
  have e: "balances_result g = Resolved response \<and> json response = Some (Object kvs)
      \<and> map_of kvs ''balances'' = Some v \<and> \<not> truthy v \<longrightarrow>
      fst (fetchBalances s g) = s"
    using fetchBalances_field_falsy [of g response kvs v s] by blast
  from a b c d e fetchBalances_unchanged_or_replaced [of s g] show ?thesis
    by blast
qed

theorem refresh_without_balances_keeps_state_witness:
  "balances_result gw_down = Rejected
   \<and> fst (fetchBalances linked gw_down) = linked
   \<and> balances_result gw_empty_body = Resolved (HttpResponse 204 None)
   \<and> fst (fetchBalances linked gw_empty_body) = linked
   \<and> balances_result gw_null = Resolved (HttpResponse 200 (Some Null))
   \<and> fst (fetchBalances linked gw_null) = linked
   \<and> balances_result gw_denied =
        Resolved (HttpResponse 401 (Some (Object [(''error'', Str ''bad key'')])))
   \<and> map_of [(''error'', Str ''bad key'')] ''balances'' = None
   \<and> fst (fetchBalances linked gw_denied) = linked
   \<and> balances_result gw_zero =
        Resolved (HttpResponse 200 (Some (Object [(''balances'', Number (Finite 0))])))
   \<and> truthy (Number (Finite 0)) = False
   \<and> fst (fetchBalances linked gw_zero) = linked
   \<and> balances linked = Array [Balance ''ETH'' ''2.0'' ''0.0'']"
  using refresh_without_balances_keeps_state [of gw_down linked]
    refresh_without_balances_keeps_state [of gw_empty_body linked "HttpResponse 204 None"]
    refresh_without_balances_keeps_state
      [of gw_null linked "HttpResponse 200 (Some Null)" Null]
    refresh_without_balances_keeps_state
      [of gw_denied linked "HttpResponse 401 (Some (Object [(''error'', Str ''bad key'')]))"
          _ "[(''error'', Str ''bad key'')]"]
    refresh_without_balances_keeps_state
      [of gw_zero linked
          "HttpResponse 200 (Some (Object [(''balances'', Number (Finite 0))]))"
          _ "[(''balances'', Number (Finite 0))]" "Number (Finite 0)"]
  by (simp add: sample_defs gw_zero_def)

text \<open>
  C6. Refreshing twice against the same gateway answer gives the same state as refreshing
  once; and a refresh that delivers a truthy \<open>balances\<close> value makes that value the
  whole collection, whatever was held before.
\<close>

theorem refresh_replaces_and_is_idempotent:
  "fst (fetchBalances (fst (fetchBalances s g)) g) = fst (fetchBalances s g)
   \<and> (balances_result g = Resolved response \<and> json response = Some data
        \<and> get_balances data = Inr v \<and> truthy v \<longrightarrow>
        balances (fst (fetchBalances s g)) = v
        \<and> balances (fst (fetchBalances (fst (fetchBalances s g)) g)) = v)"
proof -
  have idem: "fst (fetchBalances (fst (fetchBalances s g)) g) = fst (fetchBalances s g)"
    by (simp add: fetchBalances_def Let_def split: fetch_result.split option.split sum.split)
  have repl: "balances (fst (fetchBalances s g)) = v"
    if "balances_result g = Resolved response" "json response = Some data"
      "get_balances data = Inr v" "truthy v"
    using that by (simp add: fetchBalances_truthy)
  from idem repl show ?thesis by simp
qed

theorem refresh_replaces_and_is_idempotent_witness:
  "balances_result gw_ok = Resolved (HttpResponse 200
      (Some (Object [(''balances'', Array [Balance ''BTC'' ''0.5'' ''0.0''])])))
   \<and> get_balances (Object [(''balances'', Array [Balance ''BTC'' ''0.5'' ''0.0''])]) =
        Inr (Array [Balance ''BTC'' ''0.5'' ''0.0''])
   \<and> truthy (Array [Balance ''BTC'' ''0.5'' ''0.0''])
   \<and> balances linked = Array [Balance ''ETH'' ''2.0'' ''0.0'']
   \<and> balances (fst (fetchBalances linked gw_ok)) = Array [Balance ''BTC'' ''0.5'' ''0.0'']
   \<and> balances (fst (fetchBalances (fst (fetchBalances linked gw_ok)) gw_ok)) =
        Array [Balance ''BTC'' ''0.5'' ''0.0'']"
  using refresh_replaces_and_is_idempotent
    [of linked gw_ok
        "HttpResponse 200 (Some (Object [(''balances'', Array [Balance ''BTC'' ''0.5'' ''0.0''])]))"
        "Object [(''balances'', Array [Balance ''BTC'' ''0.5'' ''0.0''])]"
        "Array [Balance ''BTC'' ''0.5'' ''0.0'']"]
  by (simp add: sample_defs)

text \<open>
  A session that shows one ETH row refreshes against the body \<open>{}\<close>: the row is still
  there afterwards, the collection is not empty.
\<close>

theorem missing_balances_field_keeps_rows_counterexample:
  "balances_result gw_no_field = Resolved (HttpResponse 200 (Some (Object [])))
   \<and> map_of ([] :: (string \<times> jsval) list) ''balances'' = None
   \<and> balances (fst (fetchBalances linked gw_no_field)) = Array [Balance ''ETH'' ''2.0'' ''0.0'']
   \<and> balances (fst (fetchBalances linked gw_no_field)) \<noteq> Array []
   \<and> snd (fetchBalances linked gw_no_field) = [Fetch (GET_balances ''default'')]"
  by (simp add: sample_defs fetchBalances_def)

text \<open>
  C7. A balances response whose JSON body is an object without a \<open>balances\<close>
  field is not an error and not an update: nothing is logged and the state, with the
  balance collection, stays as it was. The collection is empty afterwards only if it was
  empty before.
\<close>

theorem missing_balances_field_no_update:
  assumes "balances_result g = Resolved response"
    and "json response = Some (Object kvs)"
    and "map_of kvs ''balances'' = None"
  shows "fetchBalances s g = (s, [Fetch (GET_balances ''default'')])"
  using assms by (simp add: fetchBalances_def)


theorem missing_balances_field_no_update_witness:
  "balances_result gw_no_field = Resolved (HttpResponse 200 (Some (Object [])))
   \<and> fetchBalances linked gw_no_field = (linked, [Fetch (GET_balances ''default'')])
   \<and> fetchBalances initial gw_no_field = (initial, [Fetch (GET_balances ''default'')])
   \<and> balances initial = Array []"
  using missing_balances_field_no_update
      [of gw_no_field "HttpResponse 200 (Some (Object []))" "[]" linked]
    missing_balances_field_no_update
      [of gw_no_field "HttpResponse 200 (Some (Object []))" "[]" initial]
  by (simp add: sample_defs)

subsection \<open>Placing orders\<close>

text \<open>
  An order answered with HTTP 204 and no body: \<open>response.ok\<close> holds, but
  \<open>response.json()\<close> rejects before \<open>fetchBalances()\<close> is reached, so no balances
  request is sent.
\<close>

theorem order_success_unparsed_body_counterexample:
  "order_result gw_empty_body = Resolved (HttpResponse 204 None)
   \<and> ok (HttpResponse 204 None)
   \<and> balances_fetches (snd (placeOrder linked gw_empty_body)) = 0
   \<and> snd (placeOrder linked gw_empty_body) =
        [Fetch (POST_order (orderData linked) ''default''),
         ConsoleError ''Order failed:'' SyntaxError]"
  by (simp add: sample_defs ok_def placeOrder_def balances_fetches_def)

text \<open>
  C5. An order whose response is an HTTP success with a body that parses as
  JSON triggers exactly one balances request, whatever the side of the order. The parsed
  result is printed and nothing else: the state afterwards is the state after the refresh
  with \<open>loading\<close> cleared.
\<close>

theorem order_success_one_refresh:
  assumes "order_result g = Resolved response" and "ok response"
    and "json response = Some result"
  shows "balances_fetches (snd (placeOrder s g)) = 1
    \<and> balances_fetches (snd (placeOrder (s\<lparr>orderData := (orderData s)\<lparr>side := BUY\<rparr>\<rparr>) g)) = 1
    \<and> balances_fetches (snd (placeOrder (s\<lparr>orderData := (orderData s)\<lparr>side := SELL\<rparr>\<rparr>) g)) = 1
    \<and> fst (placeOrder s g) = (fst (fetchBalances s g))\<lparr>loading := False\<rparr>
    \<and> snd (placeOrder s g) =
        Fetch (POST_order (orderData s) ''default'') # ConsoleLog ''Order placed:'' result
          # snd (fetchBalances s g)"
proof -
  have count: "balances_fetches (snd (placeOrder s' g)) = 1" for s'
    using fetchBalances_one_fetch [of s' g]
    by (simp add: placeOrder_parsed [OF assms] balances_fetches_def)
  have result: "placeOrder s g =
      ((fst (fetchBalances s g))\<lparr>loading := False\<rparr>,
       Fetch (POST_order (orderData s) ''default'') # ConsoleLog ''Order placed:'' result
         # snd (fetchBalances s g))"
    by (rule placeOrder_parsed [OF assms])
  have state: "fst (placeOrder s g) = (fst (fetchBalances s g))\<lparr>loading := False\<rparr>"
    by (simp add: result)
  have trace: "snd (placeOrder s g) =
      Fetch (POST_order (orderData s) ''default'') # ConsoleLog ''Order placed:'' result
        # snd (fetchBalances s g)"
    by (simp add: result)
  from count state trace show ?thesis by blast
qed

theorem order_success_one_refresh_witness:
  "order_result gw_ok = Resolved (HttpResponse 200 (Some (Object [(''orderId'', Str ''1'')])))
   \<and> ok (HttpResponse 200 (Some (Object [(''orderId'', Str ''1'')])))
   \<and> balances_fetches (snd (placeOrder linked gw_ok)) = 1
   \<and> fst (placeOrder linked gw_ok) = linked\<lparr>balances := Array [Balance ''BTC'' ''0.5'' ''0.0'']\<rparr>
   \<and> snd (placeOrder linked gw_ok) =
        [Fetch (POST_order (orderData linked) ''default''),
         ConsoleLog ''Order placed:'' (Object [(''orderId'', Str ''1'')]),
         Fetch (GET_balances ''default'')]"
  using order_success_one_refresh
    [of gw_ok "HttpResponse 200 (Some (Object [(''orderId'', Str ''1'')]))"
        "Object [(''orderId'', Str ''1'')]" linked]
  by (simp add: sample_defs ok_def fetchBalances_def balances_fetches_def)

text \<open>
  C8. While the session is disconnected the order button is not rendered: a click on it
  changes nothing and sends nothing, the button is enabled only in a connected session,
  and a session that ends disconnected has sent no order request at all.
  (\<open>placeOrder\<close> itself has no check of its own; the guard is the rendering.)
\<close>

theorem disconnected_blocks_order:
  "(\<not> isConnected s \<longrightarrow>
      \<not> enabled s ClickOrder \<and> dispatch s ClickOrder g = (s, []))
   \<and> (enabled s ClickOrder \<longrightarrow> isConnected s)
   \<and> (\<not> isConnected (fst (run s evs)) \<longrightarrow> order_fetches (snd (run s evs)) = 0)"
  by (simp add: dispatch_def run_disconnected_no_order)

theorem disconnected_blocks_order_witness:
  "isConnected keyed = False
   \<and> enabled keyed ClickOrder = False
   \<and> dispatch keyed ClickOrder gw_ok = (keyed, [])
   \<and> enabled linked ClickOrder
   \<and> isConnected linked
   \<and> isConnected (fst (run keyed [(ClickOrder, gw_ok), (ClickConnect, gw_denied),
         (ClickOrder, gw_ok)])) = False
   \<and> order_fetches (snd (run keyed [(ClickOrder, gw_ok), (ClickConnect, gw_denied),
         (ClickOrder, gw_ok)])) = 0
   \<and> snd (run keyed [(ClickOrder, gw_ok), (ClickConnect, gw_denied), (ClickOrder, gw_ok)]) =
        [Fetch (POST_connect ''k'' ''s'' ''default'')]"
  using disconnected_blocks_order [of keyed gw_ok "[]"]
    disconnected_blocks_order [of linked gw_ok "[]"]
    disconnected_blocks_order
      [of keyed gw_ok "[(ClickOrder, gw_ok), (ClickConnect, gw_denied), (ClickOrder, gw_ok)]"]
  by (simp add: sample_defs dispatch_def connectBinance_def ok_def order_fetches_def Let_def)

subsection \<open>The connection status\<close>

text \<open>
  C9. Connected is absorbing: from a connected state each handler, each field update,
  each dispatched event and each sequence of events ends in a connected state.
\<close>

theorem connected_is_absorbing:
  assumes "isConnected s"
  shows "isConnected (fst (connectBinance s g))
    \<and> isConnected (fst (fetchBalances s g))
    \<and> isConnected (fst (placeOrder s g))
    \<and> isConnected (fst (handler s ev g))
    \<and> isConnected (fst (dispatch s ev g))
    \<and> isConnected (fst (run s evs))"
  using assms
  by (simp add: connectBinance_isConnected fetchBalances_isConnected placeOrder_isConnected
      handler_isConnected dispatch_isConnected run_isConnected)

theorem connected_is_absorbing_witness:
  "isConnected linked
   \<and> isConnected (fst (connectBinance linked gw_down))
   \<and> isConnected (fst (fetchBalances linked gw_down))
   \<and> isConnected (fst (placeOrder linked gw_down))
   \<and> isConnected (fst (handler linked (SelectSide SELL) gw_down))
   \<and> isConnected (fst (dispatch linked ClickConnect gw_denied))
   \<and> isConnected (fst (run linked [(ClickRefresh, gw_down), (ChangeQuantity NaN, gw_ok),
         (ClickOrder, gw_denied), (ClickConnect, gw_down)]))"
  using connected_is_absorbing [of linked gw_down "SelectSide SELL"
      "[(ClickRefresh, gw_down), (ChangeQuantity NaN, gw_ok),
        (ClickOrder, gw_denied), (ClickConnect, gw_down)]"]
    connected_is_absorbing [of linked gw_denied ClickConnect "[]"]
  by (simp add: sample_defs)

end
